theory Spec2Isabelle
  imports Main
begin

section \<open>Python strings\<close>

text \<open>
  A Python \<open>str\<close> is modelled as a HOL \<open>string\<close>; a character stands for the code
  point with the same number, so the model covers the code points 0 to 255.
  \<open>isspace\<close> is \<open>str.isspace\<close> on one character of that range: the ASCII controls
  9 to 13 and 28 to 31, the blank 32, NEL 133 and the no-break space 160.
\<close>

definition isspace :: "char \<Rightarrow> bool" where
  "isspace c = ((of_char c :: nat) \<in> {9, 10, 11, 12, 13, 28, 29, 30, 31, 32, 133, 160})"

text \<open>
  \<open>str.lower\<close> on one character: the capital letters A to Z and the capital letters
  of the range 192 to 222 (the multiplication sign 215 apart) move up by 32.
\<close>

definition lower_char :: "char \<Rightarrow> char" where
  "lower_char c =
     (let n = (of_char c :: nat)
      in if (65 \<le> n \<and> n \<le> 90) \<or> (192 \<le> n \<and> n \<le> 222 \<and> n \<noteq> 215)
         then char_of (n + 32) else c)"

definition lower :: "string \<Rightarrow> string" where
  "lower s = map lower_char s"

text \<open>\<open>str.strip()\<close> with no argument: whitespace goes from both ends.\<close>

definition lstrip :: "string \<Rightarrow> string" where
  "lstrip s = dropWhile isspace s"

definition rstrip :: "string \<Rightarrow> string" where
  "rstrip s = rev (dropWhile isspace (rev s))"

definition strip :: "string \<Rightarrow> string" where
  "strip s = rstrip (lstrip s)"

text \<open>
  \<open>sep.join(items)\<close> as the interpreter computes it: the first item, then the
  separator and the next item for every further item; the empty string for no item.
\<close>

definition str_join :: "string \<Rightarrow> string list \<Rightarrow> string" where
  "str_join sep items =
     (case items of [] \<Rightarrow> [] | x # xs \<Rightarrow> foldl (\<lambda>acc y. acc @ sep @ y) x xs)"

text \<open>
  The specification's wording of the same thing, for comparison: the texts in order,
  one separator between two neighbours.
\<close>

fun separated :: "string \<Rightarrow> string list \<Rightarrow> string" where
  "separated sep [] = []"
| "separated sep [x] = x"
| "separated sep (x # y # ys) = x @ sep @ separated sep (y # ys)"

text \<open>Decimal digits of a natural number, as \<open>str(n)\<close> and an f-string print them.\<close>

fun show_nat :: "nat \<Rightarrow> string" where
  "show_nat n =
     (if n < 10 then [char_of (48 + n)]
      else show_nat (n div 10) @ [char_of (48 + n mod 10)])"

declare show_nat.simps [simp del]

section \<open>The world outside the program\<close>

text \<open>
  Every raise of the source is a value of \<open>error\<close>. The constructors carry the
  names of the Python exceptions; \<open>BackendError\<close> stands for whatever an external
  library raises (the chat client, the recognition model, the sound device).
\<close>

datatype error =
    FileNotFoundError string
  | FileExistsError string
  | RuntimeError string
  | KeyError string
  | OSError string
  | EOFError
  | BackendError string

type_synonym path = string

record message =
  role :: string
  content :: string

text \<open>The chat backend's answer, \<open>response["message"]["content"]\<close>.\<close>

record response =
  message :: message

text \<open>
  One segment of the recognition backend. Only \<open>text\<close> is read by the program; the
  timing fields are floating point and are left out.
\<close>

record segment =
  seg_text :: string

text \<open>\<open>subprocess.CompletedProcess\<close>.\<close>

record completed =
  returncode :: int
  stdout :: string
  stderr :: string

text \<open>The calls the conversation loop makes on its three components.\<close>

datatype call =
    Call_record_wav nat
  | Call_transcribe path "string option"
  | Call_reply string
  | Call_speak "string option"

text \<open>
  What can be observed of a run, in order: console input and output, the calls of the
  loop, and the requests that reach the external collaborators.
\<close>

datatype event =
    Prompt string
  | Input string
  | Print string
  | Call call
  | Recorded path nat
  | WhisperRequest path "string option" bool nat
  | ChatRequest string "message list"
  | Subprocess "string list" "path option" "string option"

text \<open>
  The state the program acts on: the regular files on disk with their contents, and
  the events so far.
\<close>

record world =
  files :: "path \<rightharpoonup> string"
  trace :: "event list"

text \<open>
  The behaviour of everything the program does not implement, as functions of the
  state at the moment of the call (so that two calls may answer differently):
  \<^item> \<open>abspath\<close>, \<open>path_join\<close>, \<open>platform_system\<close>: \<open>os.path.abspath\<close>,
    \<open>os.path.join\<close>, \<open>platform.system()\<close>;
  \<^item> \<open>load_yaml\<close>: reading the configuration file;
  \<^item> \<open>load_whisper\<close>: creating the audio directory and loading the recognition model;
  \<^item> \<open>rec_stamp\<close>: the text \<open>{int(time.time())}_{uuid4().hex[:6]}\<close>;
  \<^item> \<open>sd_rec\<close>: the sound device, which returns the recorded bytes or raises;
  \<^item> \<open>whisper\<close>: the recognition backend. It raises at once, or gives a lazy
    sequence: the segments it yields and, in the end, a normal stop (\<open>None\<close>) or a raise;
  \<^item> \<open>ollama_chat\<close>: the chat backend;
  \<^item> \<open>tmp_dir\<close>, \<open>tmp_random\<close>: the temporary directory and the random names
    \<open>tempfile\<close> tries in turn;
  \<^item> \<open>run_piper\<close>: the synthesis process on a command line, a working directory and
    its standard input. It fails to start (a raise), or it ends with a completed
    process and the state of its output file afterwards (\<open>None\<close>: no such file);
  \<^item> \<open>run_player\<close>: a playback process; it fails to start or gives its exit code.
\<close>

record env =
  abspath :: "string \<Rightarrow> path"
  path_join :: "path \<Rightarrow> string \<Rightarrow> path"
  platform_system :: string
  load_yaml :: "path \<Rightarrow> error + (string \<rightharpoonup> (string \<rightharpoonup> string))"
  load_whisper :: "world \<Rightarrow> string \<Rightarrow> string \<Rightarrow> error + unit"
  rec_stamp :: "world \<Rightarrow> string"
  sd_rec :: "world \<Rightarrow> nat \<Rightarrow> nat \<Rightarrow> nat option \<Rightarrow> error + string"
  whisper :: "world \<Rightarrow> path \<Rightarrow> string option \<Rightarrow> bool \<Rightarrow> nat
              \<Rightarrow> error + (segment list \<times> error option)"
  ollama_chat :: "world \<Rightarrow> string \<Rightarrow> message list \<Rightarrow> error + response"
  tmp_dir :: path
  tmp_random :: "world \<Rightarrow> string list"
  run_piper :: "world \<Rightarrow> string list \<Rightarrow> path \<Rightarrow> string
                \<Rightarrow> error + (completed \<times> string option)"
  run_player :: "world \<Rightarrow> string list \<Rightarrow> error + int"

definition log :: "event \<Rightarrow> world \<Rightarrow> world" where
  "log ev w = w\<lparr>trace := trace w @ [ev]\<rparr>"

text \<open>\<open>os.path.isfile\<close>.\<close>

definition isfile :: "world \<Rightarrow> path \<Rightarrow> bool" where
  "isfile w p = (files w p \<noteq> None)"

text \<open>Writing a whole file (created when absent, replaced when present).\<close>

definition write_file :: "path \<Rightarrow> string \<Rightarrow> world \<Rightarrow> world" where
  "write_file p data w = w\<lparr>files := (files w)(p \<mapsto> data)\<rparr>"

text \<open>\<open>os.unlink\<close> and \<open>os.remove\<close>: the file goes, or FileNotFoundError.\<close>

definition os_unlink :: "path \<Rightarrow> world \<Rightarrow> (error + unit) \<times> world" where
  "os_unlink p w =
     (if isfile w p then (Inr (), w\<lparr>files := (files w)(p := None)\<rparr>)
      else (Inl (FileNotFoundError p), w))"

text \<open>
  \<open>tempfile.NamedTemporaryFile(suffix=..., delete=False)\<close>: the first random name
  that no file has yet is created empty; FileExistsError when every name is taken.
\<close>

fun first_free :: "(path \<rightharpoonup> string) \<Rightarrow> path list \<Rightarrow> path option" where
  "first_free fs [] = None"
| "first_free fs (p # ps) = (if fs p = None then Some p else first_free fs ps)"

definition NamedTemporaryFile :: "env \<Rightarrow> string \<Rightarrow> world \<Rightarrow> (error + path) \<times> world" where
  "NamedTemporaryFile env suffix w =
     (case first_free (files w)
             (map (\<lambda>r. path_join env (tmp_dir env) (''tmp'' @ r @ suffix)) (tmp_random env w)) of
        None \<Rightarrow> (Inl (FileExistsError ''No usable temporary file name found''), w)
      | Some p \<Rightarrow> (Inr p, write_file p [] w))"

section \<open>coach.py: CoachEngine\<close>

record CoachEngine =
  coach_model :: string
  system_prompt :: string

text \<open>\<open>CoachEngine.__init__\<close>: both keys are read with \<open>cfg["coach"][...]\<close>.\<close>

definition CoachEngine_init :: "(string \<rightharpoonup> (string \<rightharpoonup> string)) \<Rightarrow> error + CoachEngine" where
  "CoachEngine_init cfg =
     (case cfg ''coach'' of
        None \<Rightarrow> Inl (KeyError ''coach'')
      | Some sect \<Rightarrow>
          (case sect ''model_name'' of
             None \<Rightarrow> Inl (KeyError ''model_name'')
           | Some m \<Rightarrow>
               (case sect ''system_prompt'' of
                  None \<Rightarrow> Inl (KeyError ''system_prompt'')
                | Some sp \<Rightarrow> Inr \<lparr>coach_model = m, system_prompt = sp\<rparr>)))"

text \<open>\<open>CoachEngine.reply\<close>.\<close>

definition reply :: "env \<Rightarrow> CoachEngine \<Rightarrow> string \<Rightarrow> world \<Rightarrow> (error + string) \<times> world" where
  "reply env coach user_text w =
     (let messages = [\<lparr>role = ''system'', content = system_prompt coach\<rparr>,
                      \<lparr>role = ''user'', content = user_text\<rparr>];
          w1 = log (ChatRequest (coach_model coach) messages) w
      in case ollama_chat env w (coach_model coach) messages of
           Inl e \<Rightarrow> (Inl e, w1)
         | Inr resp \<Rightarrow> (Inr (strip (content (message resp))), w1))"

definition DEFAULT_SYSTEM_PROMPT :: string where
  "DEFAULT_SYSTEM_PROMPT =
     CHR 0x0A # concat (map (\<lambda>l. l @ [CHR 0x0A])
       [''You are a friendly and thoughtful life coach.'',
        ''Your goal is to help the user reflect, clarify objectives, and find actionable steps.'',
        ''Rules:'',
        ''- Use a conversational, empathetic tone.'',
        ''- Ask 1-2 open-ended questions per reply.'',
        ''- End with a micro-action the user can do within 24 hours.'',
        ''- Keep answers under 120 words.'',
        ''- Avoid medical, clinical, or psychological diagnoses.'',
        ''- Always encourage self-reflection and autonomy.'',
        ''Language: Italian.''])"

section \<open>stt.py: SpeechToText\<close>

record SpeechToText =
  model_size :: string
  sample_rate :: nat
  audio_dir :: path
  device_index :: "nat option"

text \<open>
  \<open>SpeechToText.__init__\<close>: the fields are stored, the directory is made and the
  model is loaded once; either of the last two may raise.
\<close>

definition SpeechToText_init ::
  "env \<Rightarrow> string \<Rightarrow> nat \<Rightarrow> path \<Rightarrow> nat option \<Rightarrow> string \<Rightarrow> world \<Rightarrow> error + SpeechToText" where
  "SpeechToText_init env msize rate dir dev compute_type w =
     (case load_whisper env w msize compute_type of
        Inl e \<Rightarrow> Inl e
      | Inr _ \<Rightarrow> Inr \<lparr>model_size = msize, sample_rate = rate, audio_dir = dir,
                      device_index = dev\<rparr>)"

text \<open>
  \<open>SpeechToText.record_wav\<close>, for a whole number of seconds (the loop records 6):
  the name is chosen, the device records \<open>sample_rate * seconds\<close> frames, and the
  samples are written to the file (created, or replaced when the name exists). The
  content of the file stands for the WAV header and the samples; the write itself is
  taken to succeed.
\<close>

definition record_wav :: "env \<Rightarrow> SpeechToText \<Rightarrow> nat \<Rightarrow> world \<Rightarrow> (error + path) \<times> world" where
  "record_wav env stt seconds w =
     (let fname = path_join env (audio_dir stt) (''rec_'' @ rec_stamp env w @ ''.wav'');
          frames = sample_rate stt * seconds;
          w1 = log (Print (''[STT] Recording '' @ show_nat seconds @ ''.0s at ''
                           @ show_nat (sample_rate stt) @ '' Hz...'')) w
      in case sd_rec env w1 frames (sample_rate stt) (device_index stt) of
           Inl e \<Rightarrow> (Inl e, w1)
         | Inr audio \<Rightarrow>
             (Inr fname,
              write_file fname audio
                (log (Print ''[STT] Done recording.'') (log (Recorded fname frames) w1))))"

text \<open>
  \<open>SpeechToText.transcribe\<close>: the generator expression is consumed by \<open>join\<close>, so
  a raise inside the lazy sequence leaves the method before any text is built.
\<close>

definition transcribe ::
  "env \<Rightarrow> SpeechToText \<Rightarrow> path \<Rightarrow> string option \<Rightarrow> nat \<Rightarrow> bool \<Rightarrow> world
   \<Rightarrow> (error + string) \<times> world" where
  "transcribe env stt wav_path language beam_size vad_filter w =
     (let w1 = log (WhisperRequest wav_path language vad_filter beam_size) w
      in case whisper env w wav_path language vad_filter beam_size of
           Inl e \<Rightarrow> (Inl e, w1)
         | Inr (segments, Some e) \<Rightarrow> (Inl e, w1)
         | Inr (segments, None) \<Rightarrow>
             (Inr (strip (str_join '' '' (map (\<lambda>seg. strip (seg_text seg)) segments))), w1))"

section \<open>tts.py: TextToSpeech\<close>

record TextToSpeech =
  piper_dir :: path
  exe :: path
  tts_model :: path
  config :: path

text \<open>
  \<open>TextToSpeech.__init__\<close>: the executable is looked for first, then the model
  and its configuration, in that order; the first one absent raises.
\<close>

definition TextToSpeech_init :: "env \<Rightarrow> string \<Rightarrow> string \<Rightarrow> world \<Rightarrow> error + TextToSpeech" where
  "TextToSpeech_init env pdir model_name w =
     (let d = abspath env pdir;
          e = path_join env d ''piper.exe'';
          m = path_join env d (model_name @ ''.onnx'');
          c = path_join env d (model_name @ ''.onnx.json'')
      in if \<not> isfile w e then Inl (FileNotFoundError (''piper.exe non trovato in '' @ d))
         else (case find (\<lambda>p. \<not> isfile w p) [m, c] of
                 Some p \<Rightarrow> Inl (FileNotFoundError (''Voce non trovata: '' @ p))
               | None \<Rightarrow> Inr \<lparr>piper_dir = d, exe = e, tts_model = m, config = c\<rparr>))"

definition show_int :: "int \<Rightarrow> string" where
  "show_int i = (if i < 0 then CHR ''-'' # show_nat (nat (- i)) else show_nat (nat i))"

text \<open>
  The fallback loop of \<open>_play_wav\<close>: each player runs with \<open>check=True\<close>, so a
  failure to start and a non-zero exit both raise, and every raise is swallowed.
\<close>

fun try_players :: "env \<Rightarrow> string list list \<Rightarrow> world \<Rightarrow> bool \<times> world" where
  "try_players env [] w = (False, w)"
| "try_players env (player # rest) w =
     (let w1 = log (Subprocess player None None) w
      in case run_player env w player of
           Inl e \<Rightarrow> try_players env rest w1
         | Inr rc \<Rightarrow> if rc = 0 then (True, w1) else try_players env rest w1)"

text \<open>
  \<open>TextToSpeech._play_wav\<close>. On Windows and macOS the one player runs without
  \<open>check\<close>: its exit code is ignored, a failure to start is raised.
\<close>

definition play_wav :: "env \<Rightarrow> path \<Rightarrow> world \<Rightarrow> (error + unit) \<times> world" where
  "play_wav env wav_path w =
     (let system = platform_system env
      in if system = ''Windows'' \<or> system = ''Darwin'' then
           (let cmd = (if system = ''Windows''
                       then [''powershell'', ''-c'',
                             ''(New-Object Media.SoundPlayer '' @ [CHR 0x27] @ wav_path
                               @ [CHR 0x27] @ '').PlaySync();'']
                       else [''afplay'', wav_path]);
                w1 = log (Subprocess cmd None None) w
            in case run_player env w cmd of
                 Inl e \<Rightarrow> (Inl e, w1)
               | Inr rc \<Rightarrow> (Inr (), w1))
         else
           (case try_players env
                   [[''aplay'', wav_path], [''paplay'', wav_path],
                    [''ffplay'', ''-autoexit'', ''-nodisp'', wav_path]] w of
              (True, w1) \<Rightarrow> (Inr (), w1)
            | (False, w1) \<Rightarrow>
                (Inr (), log (Print (''WAV creato in: '' @ wav_path
                                      @ '' (nessun player disponibile)'')) w1)))"

text \<open>
  \<open>TextToSpeech.speak\<close>. \<open>not text\<close> holds for \<open>None\<close> and for the empty string.
  The deletions are plain statements after the calls they follow: a raise before
  them leaves the method without running them.
\<close>

definition speak :: "env \<Rightarrow> TextToSpeech \<Rightarrow> string option \<Rightarrow> world \<Rightarrow> (error + unit) \<times> world" where
  "speak env tts text w =
     (case text of
        None \<Rightarrow> (Inr (), w)
      | Some t \<Rightarrow>
          if t = [] then (Inr (), w)
          else
            (case NamedTemporaryFile env ''.txt'' w of
               (Inl e, w1) \<Rightarrow> (Inl e, w1)
             | (Inr txt_path, w1) \<Rightarrow>
                 (case NamedTemporaryFile env ''.wav'' (write_file txt_path (strip t) w1) of
                    (Inl e, w2) \<Rightarrow> (Inl e, w2)
                  | (Inr wav_path, w2) \<Rightarrow>
                      (let cmd = [exe tts, ''-m'', tts_model tts, ''-c'', config tts,
                                  ''--sentence_silence'', ''0.4'', ''-f'', wav_path]
                       in case files w2 txt_path of
                            None \<Rightarrow> (Inl (FileNotFoundError txt_path), w2)
                          | Some stdin \<Rightarrow>
                              (let w3 = log (Subprocess cmd (Some (piper_dir tts)) (Some stdin)) w2
                               in case run_piper env w2 cmd (piper_dir tts) stdin of
                                    Inl e \<Rightarrow> (Inl e, w3)
                                  | Inr (cp, out) \<Rightarrow>
                                      (case os_unlink txt_path
                                              (w3\<lparr>files := (files w3)(wav_path := out)\<rparr>) of
                                         (Inl e, w4) \<Rightarrow> (Inl e, w4)
                                       | (Inr _, w4) \<Rightarrow>
                                           if returncode cp \<noteq> 0 \<or> \<not> isfile w4 wav_path
                                           then (Inl (RuntimeError
                                                   (''Piper fallito (code='' @ show_int (returncode cp)
                                                    @ '').'' @ [CHR 0x0A] @ ''STDERR:'' @ [CHR 0x0A]
                                                    @ stderr cp)), w4)
                                           else
                                             (case play_wav env wav_path w4 of
                                                (Inl e, w5) \<Rightarrow> (Inl e, w5)
                                              | (Inr _, w5) \<Rightarrow> os_unlink wav_path w5)))))))"

section \<open>main.py: the conversation loop\<close>

text \<open>How one pass through the loop body ends: \<open>break\<close>, the next pass, or a raise.\<close>

datatype flow = Break | Continue | Raise error

text \<open>How the process ends: the loop was left by \<open>break\<close>, or a raise reached the top.\<close>

datatype outcome = Ended | Crashed error

text \<open>
  Lines 80 to 84: with no text typed, the microphone is recorded for 6 seconds and
  the recording is transcribed as Italian; typed text is taken as it is.
\<close>

definition listen :: "env \<Rightarrow> SpeechToText \<Rightarrow> string \<Rightarrow> world \<Rightarrow> (error + string) \<times> world" where
  "listen env stt user_input w =
     (if user_input = [] then
        (case record_wav env stt 6 (log (Call (Call_record_wav 6)) w) of
           (Inl e, w1) \<Rightarrow> (Inl e, w1)
         | (Inr wav_path, w1) \<Rightarrow>
             (case transcribe env stt wav_path (Some ''it'') 1 True
                     (log (Call (Call_transcribe wav_path (Some ''it''))) w1) of
                (Inl e, w2) \<Rightarrow> (Inl e, w2)
              | (Inr text, w2) \<Rightarrow> (Inr text, log (Print (''[Transcript] '' @ text)) w2)))
      else (Inr user_input, w))"

text \<open>Lines 91 to 96: the reply is fetched and printed, then spoken, then spoken.\<close>

definition respond ::
  "env \<Rightarrow> CoachEngine \<Rightarrow> TextToSpeech \<Rightarrow> string \<Rightarrow> world \<Rightarrow> flow \<times> world" where
  "respond env coach tts user_input w =
     (case reply env coach user_input (log (Call (Call_reply user_input)) w) of
        (Inl e, w1) \<Rightarrow> (Raise e, w1)
      | (Inr r, w1) \<Rightarrow>
          (case speak env tts (Some r)
                  (log (Call (Call_speak (Some r)))
                     (log (Print (''Coach: '' @ r @ [CHR 0x0A])) w1)) of
             (Inl e, w2) \<Rightarrow> (Raise e, w2)
           | (Inr _, w2) \<Rightarrow>
               (case speak env tts (Some r) (log (Call (Call_speak (Some r))) w2) of
                  (Inl e, w3) \<Rightarrow> (Raise e, w3)
                | (Inr _, w3) \<Rightarrow> (Continue, w3))))"

definition exit_keywords :: "string list" where
  "exit_keywords = [''quit'', ''exit'']"

text \<open>The loop body, lines 73 to 96, on the line that \<open>input\<close> returned.\<close>

definition turn ::
  "env \<Rightarrow> CoachEngine \<Rightarrow> SpeechToText \<Rightarrow> TextToSpeech \<Rightarrow> string \<Rightarrow> world \<Rightarrow> flow \<times> world" where
  "turn env coach stt tts line w =
     (let user_input = strip line
      in if lower user_input \<in> set exit_keywords then (Break, log (Print ''Session ended.'') w)
         else
           (case listen env stt user_input w of
              (Inl e, w1) \<Rightarrow> (Raise e, w1)
            | (Inr user_input, w1) \<Rightarrow>
                if user_input = []
                then (Continue, log (Print (''(Got empty input, try again)'' @ [CHR 0x0A])) w1)
                else respond env coach tts user_input w1))"

text \<open>
  \<open>while True\<close> over the lines the console still has to give. There is no
  \<open>try\<close> in the loop: a raise in the body, and the EOFError of \<open>input\<close> when the
  console has no more lines, end it.
\<close>

definition prompt :: string where
  "prompt = ''You (press ENTER to speak): ''"

fun loop ::
  "env \<Rightarrow> CoachEngine \<Rightarrow> SpeechToText \<Rightarrow> TextToSpeech \<Rightarrow> string list \<Rightarrow> world
   \<Rightarrow> outcome \<times> world" where
  "loop env coach stt tts [] w = (Crashed EOFError, log (Prompt prompt) w)"
| "loop env coach stt tts (line # rest) w =
     (case turn env coach stt tts line (log (Input line) (log (Prompt prompt) w)) of
        (Break, w1) \<Rightarrow> (Ended, w1)
      | (Raise e, w1) \<Rightarrow> (Crashed e, w1)
      | (Continue, w1) \<Rightarrow> loop env coach stt tts rest w1)"

text \<open>
  The program, lines 39 to 96: configuration, the three components in the order
  coach, recogniser, speaker, the banner, the loop.
\<close>

definition banner :: "world \<Rightarrow> world" where
  "banner w =
     log (Print (''Type '' @ [CHR 0x27] @ ''quit'' @ [CHR 0x27] @ '' to exit.'' @ [CHR 0x0A]))
       (log (Print ''Press ENTER to record voice (6s) or type your message.'')
          (log (Print (CHR 0x0A # ''=== Coach AI (offline) ==='')) w))"

definition main :: "env \<Rightarrow> string list \<Rightarrow> world \<Rightarrow> outcome \<times> world" where
  "main env lines w =
     (case load_yaml env ''config/settings.yaml'' of
        Inl e \<Rightarrow> (Crashed e, w)
      | Inr cfg0 \<Rightarrow>
          (let cfg1 = (if cfg0 ''coach'' = None then cfg0(''coach'' \<mapsto> Map.empty) else cfg0);
               cfg = (case cfg1 ''coach'' of
                        None \<Rightarrow> cfg1
                      | Some sect \<Rightarrow>
                          if sect ''system_prompt'' = None
                          then cfg1(''coach'' \<mapsto> sect(''system_prompt'' \<mapsto> DEFAULT_SYSTEM_PROMPT))
                          else cfg1)
           in case CoachEngine_init cfg of
                Inl e \<Rightarrow> (Crashed e, w)
              | Inr coach \<Rightarrow>
                  (case SpeechToText_init env ''small'' 16000 ''data/audio_raw'' None ''int8'' w of
                     Inl e \<Rightarrow> (Crashed e, w)
                   | Inr stt \<Rightarrow>
                       (case TextToSpeech_init env ''models/piper'' ''en_US-amy-medium'' w of
                          Inl e \<Rightarrow> (Crashed e, w)
                        | Inr tts \<Rightarrow> loop env coach stt tts lines (banner w)))))"

text \<open>The file name that \<open>record_wav\<close> chooses when called in a given state.\<close>

definition rec_path :: "env \<Rightarrow> SpeechToText \<Rightarrow> world \<Rightarrow> path" where
  "rec_path env stt w = path_join env (audio_dir stt) (''rec_'' @ rec_stamp env w @ ''.wav'')"

text \<open>
  The three synthesis assets that \<open>TextToSpeech.__init__\<close> looks for: the executable,
  the model weights and the model configuration, all in the directory of the engine.
\<close>

definition assets_present :: "env \<Rightarrow> string \<Rightarrow> string \<Rightarrow> world \<Rightarrow> bool" where
  "assets_present env pdir model_name w =
     (isfile w (path_join env (abspath env pdir) ''piper.exe'')
      \<and> isfile w (path_join env (abspath env pdir) (model_name @ ''.onnx''))
      \<and> isfile w (path_join env (abspath env pdir) (model_name @ ''.onnx.json'')))"


text \<open>What has been printed on the console, in order.\<close>

fun prints :: "event list \<Rightarrow> string list" where
  "prints [] = []"
| "prints (Print s # es) = s # prints es"
| "prints (ev # es) = prints es"

text \<open>The calls of the loop among the events, in order.\<close>

fun calls :: "event list \<Rightarrow> call list" where
  "calls [] = []"
| "calls (Call c # es) = c # calls es"
| "calls (ev # es) = calls es"

section \<open>Concrete runs\<close>

text \<open>
  A machine on which everything works: Linux with a working \<open>aplay\<close>, a chat
  backend that answers \<open>" Hi "\<close>, a recogniser that hears \<open>" Ciao "\<close>, and a
  synthesis process that exits with 0 and writes its output file.
\<close>

definition env_ok :: env where
  "env_ok =
     \<lparr>abspath = (\<lambda>p. ''/app/'' @ p),
      path_join = (\<lambda>a b. a @ ''/'' @ b),
      platform_system = ''Linux'',
      load_yaml = (\<lambda>p. Inr [''coach'' \<mapsto> [''model_name'' \<mapsto> ''llama3.1:8b'']]),
      load_whisper = (\<lambda>w m c. Inr ()),
      rec_stamp = (\<lambda>w. ''1700000000_ab12cd''),
      sd_rec = (\<lambda>w frames rate dev. Inr ''PCM''),
      whisper = (\<lambda>w p lang vad beam. Inr ([\<lparr>seg_text = '' Ciao ''\<rparr>], None)),
      ollama_chat = (\<lambda>w m msgs. Inr \<lparr>message = \<lparr>role = ''assistant'', content = '' Hi ''\<rparr>\<rparr>),
      tmp_dir = ''/tmp'',
      tmp_random = (\<lambda>w. [''a1'', ''b2'']),
      run_piper = (\<lambda>w cmd cwd stdin. Inr (\<lparr>returncode = 0, stdout = [], stderr = []\<rparr>, Some ''RIFF'')),
      run_player = (\<lambda>w cmd. Inr 0)\<rparr>"





text \<open>The same machine on which the synthesis executable cannot be started.\<close>

definition env_piper_unstartable :: env where
  "env_piper_unstartable =
     env_ok\<lparr>run_piper := (\<lambda>w cmd cwd stdin. Inl (OSError ''Exec format error''))\<rparr>"

definition coach0 :: CoachEngine where
  "coach0 = \<lparr>coach_model = ''llama3.1:8b'', system_prompt = ''Be kind.''\<rparr>"

definition stt0 :: SpeechToText where
  "stt0 = \<lparr>model_size = ''small'', sample_rate = 16000, audio_dir = ''data/audio_raw'',
           device_index = None\<rparr>"

definition tts0 :: TextToSpeech where
  "tts0 = \<lparr>piper_dir = ''/app/models/piper'', exe = ''/app/models/piper/piper.exe'',
           tts_model = ''/app/models/piper/en_US-amy-medium.onnx'',
           config = ''/app/models/piper/en_US-amy-medium.onnx.json''\<rparr>"

text \<open>A disk that holds the three synthesis assets and nothing else, and no event yet.\<close>

definition world0 :: world where
  "world0 =
     \<lparr>files = [''/app/models/piper/piper.exe'' \<mapsto> ''MZ'',
               ''/app/models/piper/en_US-amy-medium.onnx'' \<mapsto> ''onnx'',
               ''/app/models/piper/en_US-amy-medium.onnx.json'' \<mapsto> ''{}''],
      trace = []\<rparr>"

text \<open>The state after the working machine has recorded and transcribed from \<open>world0\<close>.\<close>

definition world_heard :: world where
  "world_heard =
     world0\<lparr>files := (files world0)(''data/audio_raw/rec_1700000000_ab12cd.wav'' \<mapsto> ''PCM''),
            trace := [Call (Call_record_wav 6),
                      Print (''[STT] Recording '' @ show_nat 6 @ ''.0s at '' @ show_nat 16000
                             @ '' Hz...''),
                      Recorded ''data/audio_raw/rec_1700000000_ab12cd.wav'' 96000,
                      Print ''[STT] Done recording.'',
                      Call (Call_transcribe ''data/audio_raw/rec_1700000000_ab12cd.wav''
                              (Some ''it'')),
                      WhisperRequest ''data/audio_raw/rec_1700000000_ab12cd.wav'' (Some ''it'')
                        True 1,
                      Print ''[Transcript] Ciao'']\<rparr>"

text \<open>The disk of \<open>world0\<close> without the model configuration.\<close>

definition world_no_config :: world where
  "world_no_config =
     world0\<lparr>files := (files world0)(''/app/models/piper/en_US-amy-medium.onnx.json'' := None)\<rparr>"

subsection \<open>Facts about the string operations\<close>

lemma isspace_lower_char: "isspace (lower_char c) = isspace c"
proof -
  have "(of_char c :: nat) < 256" by simp
  then show ?thesis
    by (auto simp add: isspace_def lower_char_def Let_def)
qed

lemma dropWhile_isspace_lower:
  "dropWhile isspace (map lower_char s) = map lower_char (dropWhile isspace s)"
  by (induction s) (simp_all add: isspace_lower_char)

lemma lower_strip: "lower (strip s) = strip (lower s)"
  by (simp add: lower_def strip_def lstrip_def rstrip_def rev_map
      dropWhile_isspace_lower)

lemma strip_Nil: "strip [] = []"
  by (simp add: strip_def lstrip_def rstrip_def)




lemma lstrip_keeps: "s \<noteq> [] \<Longrightarrow> \<not> isspace (hd s) \<Longrightarrow> lstrip s = s"
  by (cases s) (simp_all add: lstrip_def)

lemma rstrip_keeps: "s \<noteq> [] \<Longrightarrow> \<not> isspace (last s) \<Longrightarrow> rstrip s = s"
proof -
  assume a: "s \<noteq> []" "\<not> isspace (last s)"
  then have "rev s \<noteq> []" "\<not> isspace (hd (rev s))"
    by (simp_all add: hd_rev)
  then have "dropWhile isspace (rev s) = rev s"
    by (cases "rev s") simp_all
  then show ?thesis by (simp add: rstrip_def)
qed

lemma strip_keeps:
  "s \<noteq> [] \<Longrightarrow> \<not> isspace (hd s) \<Longrightarrow> \<not> isspace (last s) \<Longrightarrow> strip s = s"
  by (simp add: strip_def lstrip_keeps rstrip_keeps)



lemma rstrip_ends: "rstrip s = [] \<or> \<not> isspace (last (rstrip s))"
proof (cases "dropWhile isspace (rev s)")
  case Nil
  then show ?thesis by (simp add: rstrip_def)
next
  case (Cons x xs)
  then have "\<not> isspace x"
    by (metis hd_dropWhile list.distinct(1) list.sel(1))
  with Cons show ?thesis by (simp add: rstrip_def)
qed

lemma strip_not_blank: "strip s \<noteq> [] \<Longrightarrow> \<not> (\<forall>c \<in> set (strip s). isspace c)"
proof -
  assume ne: "strip s \<noteq> []"
  have "rstrip (lstrip s) = [] \<or> \<not> isspace (last (rstrip (lstrip s)))"
    by (rule rstrip_ends)
  with ne have "\<not> isspace (last (strip s))"
    by (simp add: strip_def)
  moreover from ne have "last (strip s) \<in> set (strip s)"
    by simp
  ultimately show ?thesis by blast
qed

lemma foldl_join_shift:
  "foldl (\<lambda>acc y. acc @ sep @ y) (a @ b) xs = a @ foldl (\<lambda>acc y. acc @ sep @ y) b xs"
  by (induction xs arbitrary: b) simp_all

lemma str_join_separated: "str_join sep items = separated sep items"
proof (induction sep items rule: separated.induct)
  case (1 sep)
  show ?case by (simp add: str_join_def)
next
  case (2 sep x)
  show ?case by (simp add: str_join_def)
next
  case (3 sep x y ys)
  have "foldl (\<lambda>acc y. acc @ sep @ y) (x @ sep @ y) ys
        = x @ sep @ foldl (\<lambda>acc y. acc @ sep @ y) y ys"
    using foldl_join_shift [of sep "x @ sep" y ys] by simp
  with 3 show ?case by (simp add: str_join_def)
qed

subsection \<open>Facts about files and events\<close>

lemma calls_append: "calls (a @ b) = calls a @ calls b"
  by (induction a rule: calls.induct) simp_all

lemma trace_log: "trace (log ev w) = trace w @ [ev]"
  by (simp add: log_def)

lemma files_log: "files (log ev w) = files w"
  by (simp add: log_def)

lemma isfile_log: "isfile (log ev w) p = isfile w p"
  by (simp add: isfile_def files_log)

lemma calls_log: "calls (trace (log ev w)) = calls (trace w) @ calls [ev]"
  by (simp add: trace_log calls_append)

lemma trace_write_file: "trace (write_file p d w) = trace w"
  by (simp add: write_file_def)

lemma files_write_file: "files (write_file p d w) = (files w)(p \<mapsto> d)"
  by (simp add: write_file_def)

lemma first_free_free: "first_free fs ps = Some p \<Longrightarrow> fs p = None"
  by (induction ps) (auto split: if_splits)

lemma NamedTemporaryFile_Inr:
  "NamedTemporaryFile env sfx w = (Inr p, w') \<Longrightarrow> files w p = None \<and> w' = write_file p [] w"
  by (auto simp add: NamedTemporaryFile_def first_free_free split: option.splits)

lemma NamedTemporaryFile_Inl:
  "NamedTemporaryFile env sfx w = (Inl e, w') \<Longrightarrow> w' = w"
  by (auto simp add: NamedTemporaryFile_def split: option.splits)

lemma os_unlink_Inr:
  "os_unlink p w = (Inr u, w') \<Longrightarrow> files w' = (files w)(p := None) \<and> trace w' = trace w"
  by (auto simp add: os_unlink_def split: if_splits)

lemma os_unlink_Inl:
  "os_unlink p w = (Inl e, w') \<Longrightarrow> w' = w \<and> files w p = None"
  by (auto simp add: os_unlink_def isfile_def split: if_splits)

lemma os_unlink_result:
  "os_unlink p w = (r, w') \<Longrightarrow>
     trace w' = trace w \<and> (files w' = files w \<or> files w' = (files w)(p := None))"
  by (auto simp add: os_unlink_def split: if_splits)

lemma restore_two:
  "m a = None \<Longrightarrow> m b = None \<Longrightarrow> (m(a := x, b := None))(a := None) = m"
  by (auto simp add: fun_eq_iff)

lemma try_players_files: "files (snd (try_players env ps w)) = files w"
  by (induction ps arbitrary: w) (simp_all add: Let_def files_log split: sum.splits)

lemma try_players_calls: "calls (trace (snd (try_players env ps w))) = calls (trace w)"
  by (induction ps arbitrary: w) (simp_all add: Let_def calls_log split: sum.splits)

lemma play_wav_files: "files (snd (play_wav env p w)) = files w"
  using try_players_files [of env _ w]
  by (auto simp add: play_wav_def Let_def files_log split: sum.splits prod.splits bool.splits)

lemma play_wav_calls: "calls (trace (snd (play_wav env p w))) = calls (trace w)"
  using try_players_calls [of env _ w]
  by (auto simp add: play_wav_def Let_def calls_log split: sum.splits prod.splits bool.splits)

lemma play_wav_result:
  "play_wav env p w = (r, w') \<Longrightarrow> files w' = files w \<and> calls (trace w') = calls (trace w)"
  using play_wav_files [of env p w] play_wav_calls [of env p w] by simp

lemma speak_calls:
  "speak env tts text w = (r, w') \<Longrightarrow> calls (trace w') = calls (trace w)"
  by (auto simp add: speak_def Let_def trace_write_file trace_log calls_append
      split: option.splits prod.splits sum.splits if_splits
      dest!: NamedTemporaryFile_Inr NamedTemporaryFile_Inl os_unlink_Inr os_unlink_Inl
             play_wav_result os_unlink_result)

lemma speak_success_files:
  "speak env tts text w = (Inr u, w') \<Longrightarrow> files w' = files w"
  by (auto simp add: speak_def Let_def files_log files_write_file restore_two
      split: option.splits prod.splits sum.splits if_splits
      dest!: NamedTemporaryFile_Inr NamedTemporaryFile_Inl os_unlink_Inr os_unlink_Inl
             play_wav_result)

lemma speak_keeps_files:
  "speak env tts text w = (r, w') \<Longrightarrow> files w p = Some d \<Longrightarrow> files w' p = Some d"
  by (auto simp add: speak_def Let_def files_log files_write_file
      split: option.splits prod.splits sum.splits if_splits
      dest!: NamedTemporaryFile_Inr NamedTemporaryFile_Inl os_unlink_Inr os_unlink_Inl
             play_wav_result os_unlink_result)

text \<open>Once the synthesis process has run to its end, the text file is gone.\<close>

lemma speak_unlinks_text_after_run:
  assumes "NamedTemporaryFile env ''.txt'' w = (Inr txt_path, w1)"
    and "NamedTemporaryFile env ''.wav'' (write_file txt_path (strip t) w1) = (Inr wav_path, w2)"
    and "run_piper env w2
           [exe tts, ''-m'', tts_model tts, ''-c'', config tts,
            ''--sentence_silence'', ''0.4'', ''-f'', wav_path] (piper_dir tts) (strip t)
         = Inr (cp, out)"
    and "t \<noteq> []"
    and "speak env tts (Some t) w = (r, w')"
  shows "\<not> isfile w' txt_path"
  using assms
  by (auto simp add: speak_def Let_def files_log files_write_file isfile_def
      split: option.splits prod.splits sum.splits if_splits
      dest!: NamedTemporaryFile_Inr NamedTemporaryFile_Inl os_unlink_Inr os_unlink_Inl
             play_wav_result dest: os_unlink_result)

lemma record_wav_result:
  "record_wav env stt n w = (r, w') \<Longrightarrow>
     calls (trace w') = calls (trace w) \<and>
     (case r of Inl e \<Rightarrow> files w' = files w
      | Inr p \<Rightarrow> p = rec_path env stt w \<and> (\<exists>audio. files w' = (files w)(p \<mapsto> audio)))"
  by (auto simp add: record_wav_def rec_path_def Let_def trace_log calls_append files_log
        files_write_file trace_write_file split: sum.splits)

lemma transcribe_result:
  "transcribe env stt p lang beam vad w = (r, w') \<Longrightarrow>
     calls (trace w') = calls (trace w) \<and> files w' = files w \<and>
     (\<forall>t. r = Inr t \<longrightarrow> t \<noteq> [] \<longrightarrow> \<not> (\<forall>c \<in> set t. isspace c))"
  using strip_not_blank
  by (auto simp add: transcribe_def Let_def trace_log calls_append files_log
      split: sum.splits option.splits prod.splits)

lemma reply_result:
  "reply env coach t w = (r, w') \<Longrightarrow> calls (trace w') = calls (trace w) \<and> files w' = files w"
  by (auto simp add: reply_def Let_def trace_log calls_append files_log split: sum.splits)

lemma listen_typed: "user_input \<noteq> [] \<Longrightarrow> listen env stt user_input w = (Inr user_input, w)"
  by (simp add: listen_def)

lemma listen_empty:
  assumes "listen env stt [] w = (r, w')"
  shows "(\<exists>cs. calls (trace w') = calls (trace w) @ Call_record_wav 6 # cs
            \<and> (\<forall>c \<in> set cs. \<exists>p. c = Call_transcribe p (Some ''it'')))"
    and "files w' = files w
         \<or> (\<exists>audio. files w' = (files w)(rec_path env stt (log (Call (Call_record_wav 6)) w) \<mapsto> audio))"
    and "r = Inr t \<Longrightarrow>
           (\<exists>audio. files w' = (files w)(rec_path env stt (log (Call (Call_record_wav 6)) w) \<mapsto> audio))
           \<and> calls (trace w') = calls (trace w) @
                [Call_record_wav 6,
                 Call_transcribe (rec_path env stt (log (Call (Call_record_wav 6)) w)) (Some ''it'')]
           \<and> (t \<noteq> [] \<longrightarrow> \<not> (\<forall>c \<in> set t. isspace c))"
  using assms
  by (auto simp add: listen_def trace_log calls_append files_log
      split: prod.splits sum.splits dest!: record_wav_result transcribe_result)

lemma speak_result:
  "speak env tts x w = (r, w') \<Longrightarrow>
     calls (trace w') = calls (trace w)
     \<and> (\<forall>p d. files w p = Some d \<longrightarrow> files w' p = Some d)
     \<and> (\<forall>u. r = Inr u \<longrightarrow> files w' = files w)"
  using speak_calls [of env tts x w r w'] speak_keeps_files [of env tts x w r w']
    speak_success_files [of env tts x w _ w']
  by blast

lemma respond_result:
  assumes "respond env coach tts t w = (r, w')"
  shows "r \<noteq> Break"
    and "\<exists>cs. calls (trace w') = calls (trace w) @ Call_reply t # cs
            \<and> (\<forall>c \<in> set cs. \<exists>x. c = Call_speak x)"
    and "files w p = Some d \<Longrightarrow> files w' p = Some d"
    and "r = Continue \<Longrightarrow> files w' = files w
           \<and> (\<exists>x. calls (trace w') = calls (trace w) @ [Call_reply t, Call_speak (Some x), Call_speak (Some x)])"
  using assms
  by (auto simp add: respond_def trace_log calls_append files_log
      split: prod.splits sum.splits
      dest!: reply_result speak_result)

subsection \<open>The components on the machine where everything works\<close>

lemma speak_env_ok:
  assumes "files w ''/tmp/tmpa1.txt'' = None" and "files w ''/tmp/tmpa1.wav'' = None"
    and "t \<noteq> []"
  shows "speak env_ok tts0 (Some t) w
   = (Inr (),
      w\<lparr>trace := trace w @ [Subprocess
   [''/app/models/piper/piper.exe'', ''-m'',
    ''/app/models/piper/en_US-amy-medium.onnx'', ''-c'',
    ''/app/models/piper/en_US-amy-medium.onnx.json'',
    ''--sentence_silence'', ''0.4'', ''-f'', ''/tmp/tmpa1.wav'']
   (Some ''/app/models/piper'') (Some (strip t)),
   Subprocess [''aplay'', ''/tmp/tmpa1.wav''] None None]\<rparr>)"
  using assms
  by (cases w)
     (simp add: speak_def NamedTemporaryFile_def write_file_def log_def Let_def
       os_unlink_def isfile_def play_wav_def env_ok_def tts0_def fun_eq_iff)

lemma reply_env_ok:
  "reply env_ok coach0 t w
   = (Inr ''Hi'', log (ChatRequest ''llama3.1:8b''
            [\<lparr>role = ''system'', content = ''Be kind.''\<rparr>,
             \<lparr>role = ''user'', content = t\<rparr>]) w)"
  by (simp add: reply_def Let_def env_ok_def coach0_def
       strip_def lstrip_def rstrip_def isspace_def)

lemma respond_env_ok:
  assumes "files w ''/tmp/tmpa1.txt'' = None" and "files w ''/tmp/tmpa1.wav'' = None"
  shows "respond env_ok coach0 tts0 t w
   = (Continue,
      w\<lparr>trace := trace w @
        [Call (Call_reply t),
         ChatRequest ''llama3.1:8b''
            [\<lparr>role = ''system'', content = ''Be kind.''\<rparr>,
             \<lparr>role = ''user'', content = t\<rparr>],
         Print (''Coach: Hi'' @ [CHR 0x0A]),
         Call (Call_speak (Some ''Hi'')),
         Subprocess
   [''/app/models/piper/piper.exe'', ''-m'',
    ''/app/models/piper/en_US-amy-medium.onnx'', ''-c'',
    ''/app/models/piper/en_US-amy-medium.onnx.json'',
    ''--sentence_silence'', ''0.4'', ''-f'', ''/tmp/tmpa1.wav'']
   (Some ''/app/models/piper'') (Some ''Hi''),
         Subprocess [''aplay'', ''/tmp/tmpa1.wav''] None None,
         Call (Call_speak (Some ''Hi'')),
         Subprocess
   [''/app/models/piper/piper.exe'', ''-m'',
    ''/app/models/piper/en_US-amy-medium.onnx'', ''-c'',
    ''/app/models/piper/en_US-amy-medium.onnx.json'',
    ''--sentence_silence'', ''0.4'', ''-f'', ''/tmp/tmpa1.wav'']
   (Some ''/app/models/piper'') (Some ''Hi''),
         Subprocess [''aplay'', ''/tmp/tmpa1.wav''] None None]\<rparr>)"
proof -
  have s: "strip ''Hi'' = ''Hi''"
    by (simp add: strip_def lstrip_def rstrip_def isspace_def)
  show ?thesis
    using assms
    by (simp add: respond_def reply_env_ok speak_env_ok files_log s log_def)
qed

section \<open>Transcriber and ReplyEngine\<close>

text \<open>
  C9. For every finite sequence of segments that the recognition backend yields,
  \<open>transcribe\<close> returns the segments' texts, each trimmed of surrounding whitespace,
  joined by single spaces, the whole trimmed again; when the backend yields no
  segment the result is the empty string.
\<close>

theorem transcribe_joins_trimmed_segments:
  assumes "whisper env w wav_path language vad_filter beam_size = Inr (segments, None)"
  shows "fst (transcribe env stt wav_path language beam_size vad_filter w)
           = Inr (strip (separated '' '' (map (\<lambda>seg. strip (seg_text seg)) segments)))
         \<and> (segments = [] \<longrightarrow>
              fst (transcribe env stt wav_path language beam_size vad_filter w) = Inr [])"
  using assms by (simp add: transcribe_def Let_def str_join_separated strip_Nil)

theorem transcribe_joins_trimmed_segments_witness:
  "fst (transcribe
          (env_ok\<lparr>whisper := (\<lambda>w p lang vad beam.
              Inr ([\<lparr>seg_text = '' Ciao ''\<rparr>, \<lparr>seg_text = ''mondo  ''\<rparr>], None))\<rparr>)
          stt0 ''a.wav'' (Some ''it'') 1 True world0) = Inr ''Ciao mondo''"
  using transcribe_joins_trimmed_segments
    [of "env_ok\<lparr>whisper := (\<lambda>w p lang vad beam.
              Inr ([\<lparr>seg_text = '' Ciao ''\<rparr>, \<lparr>seg_text = ''mondo  ''\<rparr>], None))\<rparr>"
        world0 "''a.wav''" "Some ''it''" True 1
        "[\<lparr>seg_text = '' Ciao ''\<rparr>, \<lparr>seg_text = ''mondo  ''\<rparr>]" stt0]
  by (simp add: strip_def lstrip_def rstrip_def isspace_def)

text \<open>
  C3. \<open>reply\<close> sends the chat backend one request of exactly two messages, first
  the system-role message with the configured system prompt, second the user-role
  message with the user's text, and returns the content of the backend's response
  message trimmed of surrounding whitespace and otherwise as it came.
\<close>

theorem reply_sends_system_then_user:
  "snd (reply env coach user_text w)
     = log (ChatRequest (coach_model coach)
              [\<lparr>role = ''system'', content = system_prompt coach\<rparr>,
               \<lparr>role = ''user'', content = user_text\<rparr>]) w
   \<and> (\<forall>resp. ollama_chat env w (coach_model coach)
                 [\<lparr>role = ''system'', content = system_prompt coach\<rparr>,
                  \<lparr>role = ''user'', content = user_text\<rparr>] = Inr resp
          \<longrightarrow> fst (reply env coach user_text w) = Inr (strip (content (message resp))))"
  by (simp add: reply_def Let_def split: sum.splits)

theorem reply_sends_system_then_user_witness:
  "reply env_ok coach0 ''I feel stuck at work'' world0
     = (Inr ''Hi'',
        world0\<lparr>trace := [ChatRequest ''llama3.1:8b''
                            [\<lparr>role = ''system'', content = ''Be kind.''\<rparr>,
                             \<lparr>role = ''user'', content = ''I feel stuck at work''\<rparr>]]\<rparr>)"
proof -
  have sent: "ollama_chat env_ok world0 (coach_model coach0)
                [\<lparr>role = ''system'', content = system_prompt coach0\<rparr>,
                 \<lparr>role = ''user'', content = ''I feel stuck at work''\<rparr>]
              = Inr \<lparr>message = \<lparr>role = ''assistant'', content = '' Hi ''\<rparr>\<rparr>"
    by (simp add: env_ok_def)
  have trimmed: "strip '' Hi '' = ''Hi''"
    by (simp add: strip_def lstrip_def rstrip_def isspace_def)
  from reply_sends_system_then_user [of env_ok coach0 "''I feel stuck at work''" world0] sent
  have "fst (reply env_ok coach0 ''I feel stuck at work'' world0) = Inr ''Hi''"
    and "snd (reply env_ok coach0 ''I feel stuck at work'' world0)
           = log (ChatRequest (coach_model coach0)
                    [\<lparr>role = ''system'', content = system_prompt coach0\<rparr>,
                     \<lparr>role = ''user'', content = ''I feel stuck at work''\<rparr>]) world0"
    by (simp_all add: trimmed)
  then show ?thesis
    by (simp add: prod_eq_iff log_def coach0_def world0_def)
qed

section \<open>Speaker\<close>

text \<open>
  C6, as the code has it. For every empty text (the empty string, or \<open>None\<close>),
  \<open>speak\<close> starts no process, plays nothing and creates no file: it returns normally
  and leaves the state as it was. The guard is \<open>not text\<close>, so a text of blanks only
  is not covered by it.
\<close>

theorem speak_empty_is_noop:
  "text = None \<or> text = Some [] \<Longrightarrow> speak env tts text w = (Inr (), w)"
  by (auto simp add: speak_def)

theorem speak_empty_is_noop_witness:
  "speak env_ok tts0 (Some []) world0 = (Inr (), world0)
   \<and> speak env_ok tts0 None world0 = (Inr (), world0)"
  using speak_empty_is_noop [of "Some []" env_ok tts0 world0]
    speak_empty_is_noop [of None env_ok tts0 world0]
  by simp

section \<open>The conversation loop\<close>

lemma lower_exit_keyword_strip:
  assumes "lower s \<in> set exit_keywords"
  shows "s \<noteq> []" and "\<not> isspace (hd s)" and "\<not> isspace (last s)"
proof -
  from assms have k: "lower s = ''quit'' \<or> lower s = ''exit''"
    by (simp add: exit_keywords_def)
  then show ne: "s \<noteq> []" by (auto simp add: lower_def)
  have "hd (lower s) = lower_char (hd s)" "last (lower s) = lower_char (last s)"
    using ne by (simp_all add: lower_def hd_map last_map)
  moreover have "\<not> isspace (hd (lower s))" "\<not> isspace (last (lower s))"
    using k by (auto simp add: isspace_def)
  ultimately show "\<not> isspace (hd s)" "\<not> isspace (last s)"
    by (simp_all add: isspace_lower_char)
qed

lemma turn_exit:
  "lower (strip line) \<in> set exit_keywords
   \<Longrightarrow> turn env coach stt tts line w = (Break, log (Print ''Session ended.'') w)"
  by (simp add: turn_def Let_def)

lemma lower_Nil_no_keyword: "lower [] \<notin> set exit_keywords"
  by (simp add: lower_def exit_keywords_def)

lemma turn_typed:
  "strip line \<noteq> [] \<Longrightarrow> lower (strip line) \<notin> set exit_keywords
   \<Longrightarrow> turn env coach stt tts line w = respond env coach tts (strip line) w"
  by (simp add: turn_def Let_def listen_typed)

lemma turn_blank:
  "strip line = [] \<Longrightarrow>
   turn env coach stt tts line w =
     (case listen env stt [] w of
        (Inl e, w1) \<Rightarrow> (Raise e, w1)
      | (Inr user_input, w1) \<Rightarrow>
          if user_input = []
          then (Continue, log (Print (''(Got empty input, try again)'' @ [CHR 0x0A])) w1)
          else respond env coach tts user_input w1)"
  by (simp add: turn_def Let_def lower_Nil_no_keyword)

lemma turn_keeps_files:
  assumes "turn env coach stt tts line w = (r, w')" and "isfile w p"
  shows "isfile w' p"
proof (cases "lower (strip line) \<in> set exit_keywords")
  case True
  with assms show ?thesis by (auto simp add: turn_exit isfile_log)
next
  case False
  show ?thesis
  proof (cases "strip line = []")
    case ne: False
    with False assms(1) have "respond env coach tts (strip line) w = (r, w')"
      by (simp add: turn_typed)
    from respond_result(3) [OF this] assms(2) show ?thesis
      by (auto simp add: isfile_def)
  next
    case True
    obtain r1 w1 where l: "listen env stt [] w = (r1, w1)" by (cases "listen env stt [] w")
    from listen_empty(2) [OF l] assms(2) have k: "isfile w1 p"
      by (auto simp add: isfile_def)
    show ?thesis
    proof (cases r1)
      case (Inl e)
      with True l assms(1) k show ?thesis by (simp add: turn_blank)
    next
      case (Inr t)
      show ?thesis
      proof (cases "t = []")
        case True
        with \<open>strip line = []\<close> Inr l assms(1) k show ?thesis
          by (auto simp add: turn_blank isfile_log)
      next
        case False
        with \<open>strip line = []\<close> Inr l assms(1)
        have "respond env coach tts t w1 = (r, w')" by (simp add: turn_blank)
        from respond_result(3) [OF this] k show ?thesis
          by (auto simp add: isfile_def)
      qed
    qed
  qed
qed

text \<open>
  C7. For every console line that is "quit" or "exit" in any mix of upper and
  lower case, the loop ends at once: the farewell is printed, the remaining lines
  are not read, no file changes, and nothing is asked of the transcriber, the reply
  engine or the speaker.
\<close>

theorem exit_keyword_ends_loop:
  assumes "lower line \<in> {''quit'', ''exit''}"
  shows "loop env coach stt tts (line # rest) w
           = (Ended, log (Print ''Session ended.'') (log (Input line) (log (Prompt prompt) w)))"
proof -
  from assms have k: "lower line \<in> set exit_keywords"
    by (simp add: exit_keywords_def)
  then have "strip line = line"
    using lower_exit_keyword_strip [of line] by (simp add: strip_keeps)
  with k have "lower (strip line) \<in> set exit_keywords" by simp
  then show ?thesis by (simp add: turn_exit)
qed

theorem exit_keyword_ends_loop_witness:
  "loop env_ok coach0 stt0 tts0 [''QuIt'', ''hello''] world0
     = (Ended, world0\<lparr>trace := [Prompt prompt, Input ''QuIt'', Print ''Session ended.'']\<rparr>)"
proof -
  have "lower ''QuIt'' \<in> {''quit'', ''exit''}"
    by code_simp
  from exit_keyword_ends_loop [OF this, of env_ok coach0 stt0 tts0 "[''hello'']" world0]
  show ?thesis by (simp add: log_def world0_def)
qed

lemma strip_hello: "strip ''hello'' = ''hello''"
  by (simp add: strip_def lstrip_def rstrip_def isspace_def)

lemma hello_no_keyword: "lower ''hello'' \<notin> set exit_keywords"
  by (simp add: lower_def lower_char_def exit_keywords_def)


text \<open>
  C1. The claim is that a normal turn passes through Generating and Speaking once
  and calls the speaker exactly once with the reply. The loop body calls
  \<open>tts.speak(reply)\<close> on line 94 and again on line 96: on the machine where
  everything works, the typed line "hello" gives one call of the reply engine and two
  calls of the speaker with the same reply. (By \<open>respond_result\<close> every turn that
  completes after a reply has exactly these three calls.)
\<close>

theorem normal_turn_speaks_twice:
  "fst (turn env_ok coach0 stt0 tts0 ''hello'' world0) = Continue
   \<and> calls (trace (snd (turn env_ok coach0 stt0 tts0 ''hello'' world0)))
       = [Call_reply ''hello'', Call_speak (Some ''Hi''), Call_speak (Some ''Hi'')]"
proof -
  have "turn env_ok coach0 stt0 tts0 ''hello'' world0 = respond env_ok coach0 tts0 ''hello'' world0"
    using turn_typed [of "''hello''" env_ok coach0 stt0 tts0 world0]
    by (simp add: strip_hello hello_no_keyword)
  moreover have "files world0 ''/tmp/tmpa1.txt'' = None" "files world0 ''/tmp/tmpa1.wav'' = None"
    by (simp_all add: world0_def)
  ultimately show ?thesis
    by (simp add: respond_env_ok world0_def)
qed





lemma prints_append: "prints (a @ b) = prints a @ prints b"
  by (induction a rule: prints.induct) simp_all

lemma try_players_prints: "prints (trace (snd (try_players env ps w))) = prints (trace w)"
  by (induction ps arbitrary: w) (simp_all add: Let_def trace_log prints_append split: sum.splits)



















section \<open>Transient files\<close>

lemma listen_env_ok: "listen env_ok stt0 [] world0 = (Inr ''Ciao'', world_heard)"
  by (simp add: listen_def record_wav_def transcribe_def Let_def log_def write_file_def
        env_ok_def stt0_def world0_def world_heard_def str_join_def
        strip_def lstrip_def rstrip_def isspace_def)

lemma turn_voice_env_ok:
  "turn env_ok coach0 stt0 tts0 [] world0 = respond env_ok coach0 tts0 ''Ciao'' world_heard"
  by (simp add: turn_blank strip_Nil listen_env_ok)

lemma world_heard_tmp_free:
  "files world_heard ''/tmp/tmpa1.txt'' = None" "files world_heard ''/tmp/tmpa1.wav'' = None"
  by (simp_all add: world_heard_def world0_def)

text \<open>
  C4, as stated, fails: after a voice turn in which everything works, the recorded
  input WAV is still on disk. No statement of the program deletes a recording.
\<close>

theorem voice_turn_keeps_recording:
  "fst (turn env_ok coach0 stt0 tts0 [] world0) = Continue
   \<and> files (snd (turn env_ok coach0 stt0 tts0 [] world0))
         ''data/audio_raw/rec_1700000000_ab12cd.wav'' = Some ''PCM''"
  by (simp add: turn_voice_env_ok respond_env_ok world_heard_tmp_free)
     (simp add: world_heard_def)

text \<open>
  C4, as the code has it. For every turn that ends without an error (the exit
  command, an empty transcript, or a reply that was spoken), no temporary text file
  and no synthesized WAV of that turn is left: the disk is as it was before the turn,
  except that a voice turn leaves its recorded input WAV in the audio directory.
\<close>

theorem completed_turn_leaves_only_recording:
  assumes "turn env coach stt tts line w = (r, w')" and "r = Break \<or> r = Continue"
  shows "if strip line = []
         then \<exists>audio. files w' = (files w)(rec_path env stt (log (Call (Call_record_wav 6)) w) \<mapsto> audio)
         else files w' = files w"
proof (cases "lower (strip line) \<in> set exit_keywords")
  case True
  then have "strip line \<noteq> []" using lower_Nil_no_keyword by auto
  with True assms show ?thesis by (auto simp add: turn_exit files_log)
next
  case False
  show ?thesis
  proof (cases "strip line = []")
    case ne: False
    with False assms(1) have "respond env coach tts (strip line) w = (r, w')"
      by (simp add: turn_typed)
    from respond_result(1,4) [OF this] assms(2) ne show ?thesis by auto
  next
    case True
    obtain r1 w1 where l: "listen env stt [] w = (r1, w1)" by (cases "listen env stt [] w")
    show ?thesis
    proof (cases r1)
      case (Inl e)
      with True l assms show ?thesis by (auto simp add: turn_blank)
    next
      case (Inr t)
      from listen_empty(3) [OF l Inr]
      obtain audio where f: "files w1 = (files w)(rec_path env stt (log (Call (Call_record_wav 6)) w) \<mapsto> audio)"
        by blast
      show ?thesis
      proof (cases "t = []")
        case True
        with \<open>strip line = []\<close> Inr l assms(1) f show ?thesis
          by (auto simp add: turn_blank files_log)
      next
        case False
        with \<open>strip line = []\<close> Inr l assms(1)
        have "respond env coach tts t w1 = (r, w')" by (simp add: turn_blank)
        from respond_result(1,4) [OF this] assms(2) f \<open>strip line = []\<close> show ?thesis
          by auto
      qed
    qed
  qed
qed

theorem completed_turn_leaves_only_recording_witness:
  "fst (turn env_ok coach0 stt0 tts0 [] world0) = Continue
   \<and> (\<exists>audio. files (snd (turn env_ok coach0 stt0 tts0 [] world0))
                 = (files world0)(''data/audio_raw/rec_1700000000_ab12cd.wav'' \<mapsto> audio))
   \<and> \<not> isfile (snd (turn env_ok coach0 stt0 tts0 [] world0)) ''/tmp/tmpa1.txt''
   \<and> \<not> isfile (snd (turn env_ok coach0 stt0 tts0 [] world0)) ''/tmp/tmpa1.wav''"
proof -
  have c: "fst (turn env_ok coach0 stt0 tts0 [] world0) = Continue"
    by (simp add: turn_voice_env_ok respond_env_ok world_heard_tmp_free)
  have p: "rec_path env_ok stt0 (log (Call (Call_record_wav 6)) world0)
             = ''data/audio_raw/rec_1700000000_ab12cd.wav''"
    by (simp add: rec_path_def env_ok_def stt0_def)
  from completed_turn_leaves_only_recording
    [of env_ok coach0 stt0 tts0 "[]" world0 Continue "snd (turn env_ok coach0 stt0 tts0 [] world0)"] c
  have e: "\<exists>audio. files (snd (turn env_ok coach0 stt0 tts0 [] world0))
                 = (files world0)(''data/audio_raw/rec_1700000000_ab12cd.wav'' \<mapsto> audio)"
    by (simp add: strip_Nil p prod_eq_iff)
  then have "\<not> isfile (snd (turn env_ok coach0 stt0 tts0 [] world0)) ''/tmp/tmpa1.txt''"
    "\<not> isfile (snd (turn env_ok coach0 stt0 tts0 [] world0)) ''/tmp/tmpa1.wav''"
    by (auto simp add: isfile_def world0_def)
  with c e show ?thesis by simp
qed

text \<open>
  C5. The claim is that the temporary text file is gone on every exit path of
  \<open>speak\<close>. The deletion is the statement after \<open>subprocess.run\<close>; when the
  synthesis executable cannot be started, \<open>run\<close> raises and that statement is not
  reached: \<open>speak\<close> leaves with the error and the text file (and the empty output
  file) stay on disk. When the process does run to its end the file is deleted
  whatever the outcome (\<open>speak_unlinks_text_after_run\<close>).
\<close>

theorem speak_leaks_text_file_when_piper_cannot_start:
  "speak env_piper_unstartable tts0 (Some ''Hello'') world0
   = (Inl (OSError ''Exec format error''),
      world0\<lparr>files := (files world0)(''/tmp/tmpa1.txt'' \<mapsto> ''Hello'', ''/tmp/tmpa1.wav'' \<mapsto> []),
             trace := [Subprocess
               [''/app/models/piper/piper.exe'', ''-m'',
                ''/app/models/piper/en_US-amy-medium.onnx'', ''-c'',
                ''/app/models/piper/en_US-amy-medium.onnx.json'',
                ''--sentence_silence'', ''0.4'', ''-f'', ''/tmp/tmpa1.wav'']
               (Some ''/app/models/piper'') (Some ''Hello'')]\<rparr>)"
  by (simp add: speak_def NamedTemporaryFile_def write_file_def log_def Let_def
       env_piper_unstartable_def env_ok_def tts0_def world0_def
       strip_def lstrip_def rstrip_def isspace_def)

theorem speak_leaks_text_file_when_piper_cannot_start_witness:
  "fst (speak env_piper_unstartable tts0 (Some ''Hello'') world0)
     = Inl (OSError ''Exec format error'')
   \<and> isfile (snd (speak env_piper_unstartable tts0 (Some ''Hello'') world0)) ''/tmp/tmpa1.txt''"
  using speak_leaks_text_file_when_piper_cannot_start
  by (simp add: isfile_def)

text \<open>
  C6, as stated, fails for a text of blanks: \<open>speak(" ")\<close> passes the guard,
  creates both temporary files, runs the synthesis process on empty input and plays
  the result.
\<close>

theorem speak_blank_runs_synthesis:
  "isspace CHR '' ''
   \<and> speak env_ok tts0 (Some '' '') world0
       = (Inr (),
          world0\<lparr>trace := [Subprocess
             [''/app/models/piper/piper.exe'', ''-m'',
              ''/app/models/piper/en_US-amy-medium.onnx'', ''-c'',
              ''/app/models/piper/en_US-amy-medium.onnx.json'',
              ''--sentence_silence'', ''0.4'', ''-f'', ''/tmp/tmpa1.wav'']
             (Some ''/app/models/piper'') (Some []),
             Subprocess [''aplay'', ''/tmp/tmpa1.wav''] None None]\<rparr>)"
proof -
  have "strip '' '' = []" "isspace CHR '' ''"
    by (simp_all add: strip_def lstrip_def rstrip_def isspace_def)
  moreover have "files world0 ''/tmp/tmpa1.txt'' = None" "files world0 ''/tmp/tmpa1.wav'' = None"
    by (simp_all add: world0_def)
  ultimately show ?thesis
    using speak_env_ok [of world0 "'' ''"] by (simp add: world0_def)
qed

section \<open>Construction of the speaker\<close>

lemma TextToSpeech_init_present:
  "assets_present env pdir name w \<Longrightarrow>
   TextToSpeech_init env pdir name w
     = Inr \<lparr>piper_dir = abspath env pdir,
            exe = path_join env (abspath env pdir) ''piper.exe'',
            tts_model = path_join env (abspath env pdir) (name @ ''.onnx''),
            config = path_join env (abspath env pdir) (name @ ''.onnx.json'')\<rparr>"
  by (simp add: TextToSpeech_init_def assets_present_def Let_def)

lemma TextToSpeech_init_missing:
  "\<not> assets_present env pdir name w \<Longrightarrow>
   \<exists>msg. TextToSpeech_init env pdir name w = Inl (FileNotFoundError msg)"
  by (auto simp add: TextToSpeech_init_def assets_present_def Let_def)

lemma main_missing:
  "\<not> assets_present env ''models/piper'' ''en_US-amy-medium'' w \<Longrightarrow>
   \<exists>e. main env lines w = (Crashed e, w)"
  using TextToSpeech_init_missing [of env "''models/piper''" "''en_US-amy-medium''" w]
  by (auto simp add: main_def Let_def split: sum.splits option.splits)

lemma turn_keeps_assets:
  "assets_present env pdir name w \<Longrightarrow>
   assets_present env pdir name (snd (turn env' coach stt tts line w))"
  using turn_keeps_files [of env' coach stt tts line w "fst (turn env' coach stt tts line w)"
      "snd (turn env' coach stt tts line w)"]
  by (simp add: assets_present_def)

lemma world0_assets: "assets_present env_ok ''models/piper'' ''en_US-amy-medium'' world0"
  by (simp add: assets_present_def isfile_def env_ok_def world0_def)

lemma world_no_config_assets:
  "\<not> assets_present env_ok ''models/piper'' ''en_US-amy-medium'' world_no_config"
  by (simp add: assets_present_def isfile_def env_ok_def world_no_config_def world0_def)

lemma main_no_config:
  "main env_ok [''hello''] world_no_config
     = (Crashed (FileNotFoundError
          ''Voce non trovata: /app/models/piper/en_US-amy-medium.onnx.json''), world_no_config)"
  by (simp add: main_def CoachEngine_init_def SpeechToText_init_def TextToSpeech_init_def
        Let_def isfile_def env_ok_def world_no_config_def world0_def)

text \<open>
  C8. The constructor of the speaker checks that the synthesis executable, the model
  weights and the model configuration exist at the configured paths: with all three
  present it returns the speaker, with any one absent it raises FileNotFoundError
  (the specification's MissingAssetError) before returning. The program constructs
  the speaker before the loop, so with an asset missing it ends before the banner and
  before any input is read, with the state untouched; and a turn never removes a file
  that existed when it began, so the assets found at construction are there at the
  start of every turn.
\<close>

theorem speaker_construction_checks_assets:
  "(assets_present env pdir name w \<longrightarrow> (\<exists>tts. TextToSpeech_init env pdir name w = Inr tts))
   \<and> (\<not> assets_present env pdir name w \<longrightarrow>
        (\<exists>msg. TextToSpeech_init env pdir name w = Inl (FileNotFoundError msg)))
   \<and> (\<not> assets_present env ''models/piper'' ''en_US-amy-medium'' w \<longrightarrow>
        (\<exists>e. main env lines w = (Crashed e, w)))
   \<and> (assets_present env pdir name w \<longrightarrow>
        assets_present env pdir name (snd (turn env coach stt tts line w)))"
  using TextToSpeech_init_present [of env pdir name w]
    TextToSpeech_init_missing [of env pdir name w]
    main_missing [of env w lines]
    turn_keeps_assets [of env pdir name w env coach stt tts line]
  by simp

theorem speaker_construction_checks_assets_witness:
  "assets_present env_ok ''models/piper'' ''en_US-amy-medium'' world0
   \<and> (\<exists>tts. TextToSpeech_init env_ok ''models/piper'' ''en_US-amy-medium'' world0 = Inr tts)
   \<and> assets_present env_ok ''models/piper'' ''en_US-amy-medium''
        (snd (turn env_ok coach0 stt0 tts0 ''hello'' world0))
   \<and> \<not> assets_present env_ok ''models/piper'' ''en_US-amy-medium'' world_no_config
   \<and> (\<exists>msg. TextToSpeech_init env_ok ''models/piper'' ''en_US-amy-medium'' world_no_config
               = Inl (FileNotFoundError msg))
   \<and> (\<exists>e. main env_ok [''hello''] world_no_config = (Crashed e, world_no_config))"
  using speaker_construction_checks_assets
      [of env_ok "''models/piper''" "''en_US-amy-medium''" world0 "[''hello'']" coach0 stt0 tts0 "''hello''"]
    speaker_construction_checks_assets
      [of env_ok "''models/piper''" "''en_US-amy-medium''" world_no_config "[''hello'']" coach0 stt0 tts0 "''hello''"]
    world0_assets world_no_config_assets
  by simp

section \<open>Blank console lines\<close>





end
